theory Spec2Isabelle
  imports Main
begin

section \<open>Errors and NumPy arrays\<close>

text \<open>
  Every exception the modelled Python can raise is a value of \<open>error\<close>; a function that
  may raise returns \<open>error + 'a\<close> with \<open>Inl\<close> for the exception. A ValueError carries a
  tag for the statement that raised it.
\<close>

datatype value_error =
    Unequal_Split         \<comment> \<open>\<open>np.split\<close>: array split does not result in an equal division\<close>
  | Concat_Mismatch       \<comment> \<open>\<open>np.concatenate\<close>: no array, or dimensions that do not match\<close>
  | Not_In_List           \<comment> \<open>\<open>list.remove(x)\<close>: x not in list\<close>
  | Not_Const             \<comment> \<open>\<open>get_tensor_value\<close> of a node that holds no constant\<close>
  | No_Initializers       \<comment> \<open>"no initializers, unexpected"\<close>
  | Exit_Check_Failed     \<comment> \<open>"lstm output exit node check failed"\<close>
  | Expect_Transpose      \<comment> \<open>"batch major should expect a transpose after gather"\<close>

datatype error =
  ValueError value_error | IndexError | AssertionError | AttributeError | TypeError | KeyError

text \<open>
  A two-dimensional \<open>numpy.ndarray\<close>: its shape and its rows. The shape is kept beside the
  rows because an array of shape \<open>(0, n)\<close> has no row to read \<open>n\<close> from. The element
  type is a parameter; the only arithmetic the rewriter does on elements is \<open>np.add\<close>.
\<close>

datatype 'a array2 = Array2 (shape0: nat) (shape1: nat) (rows: "'a list list")

definition wf_array2 :: "'a array2 \<Rightarrow> bool" where
  "wf_array2 A \<longleftrightarrow>
     length (rows A) = shape0 A \<and> list_all (\<lambda>r. length r = shape1 A) (rows A)"

text \<open>\<open>np.reshape(b, (1, n))\<close> of a vector \<open>b\<close> of length \<open>n\<close>.\<close>

definition np_reshape_row :: "'a list \<Rightarrow> 'a array2" where
  "np_reshape_row b = Array2 1 (length b) [b]"

text \<open>
  \<open>np.split(A, n, axis=1)\<close>: \<open>n\<close> equal column blocks; it raises ValueError when the
  column count is not a multiple of \<open>n\<close> (the source only calls it with \<open>n = 4\<close>).
\<close>

definition np_split_axis1 :: "'a array2 \<Rightarrow> nat \<Rightarrow> error + 'a array2 list" where
  "np_split_axis1 A n =
     (if n = 0 \<or> shape1 A mod n \<noteq> 0 then Inl (ValueError Unequal_Split)
      else let w = shape1 A div n in
        Inr (map (\<lambda>k. Array2 (shape0 A) w (map (\<lambda>r. take w (drop (k * w) r)) (rows A)))
                 [0..<n]))"

text \<open>
  \<open>np.split(A, [-h])\<close> (axis 0): the two slices \<open>A[0:-h]\<close> and \<open>A[-h:]\<close>. Python
  reads the index \<open>-0\<close> as \<open>0\<close> and clips \<open>-h\<close> below the first row to \<open>0\<close>.
\<close>

definition np_split_rows_neg :: "'a array2 \<Rightarrow> nat \<Rightarrow> 'a array2 \<times> 'a array2" where
  "np_split_rows_neg A h =
     (let p = (if h = 0 then 0 else shape0 A - h) in
        (Array2 (min p (shape0 A)) (shape1 A) (take p (rows A)),
         Array2 (shape0 A - p) (shape1 A) (drop p (rows A))))"

text \<open>
  \<open>np.concatenate(As, axis=1)\<close>: the arrays side by side; ValueError when the list is empty
  or the row counts differ.
\<close>

definition np_concatenate_axis1 :: "'a array2 list \<Rightarrow> error + 'a array2" where
  "np_concatenate_axis1 As =
     (case As of
        [] \<Rightarrow> Inl (ValueError Concat_Mismatch)
      | A # _ \<Rightarrow>
          if list_all (\<lambda>B. shape0 B = shape0 A) As
          then Inr (Array2 (shape0 A) (sum_list (map shape1 As))
                      (map (\<lambda>i. concat (map (\<lambda>B. rows B ! i) As)) [0..<shape0 A]))
          else Inl (ValueError Concat_Mismatch))"

text \<open>\<open>np.concatenate(As, axis=0)\<close>: the arrays one below the other.\<close>

definition np_concatenate_axis0 :: "'a array2 list \<Rightarrow> error + 'a array2" where
  "np_concatenate_axis0 As =
     (case As of
        [] \<Rightarrow> Inl (ValueError Concat_Mismatch)
      | A # _ \<Rightarrow>
          if list_all (\<lambda>B. shape1 B = shape1 A) As
          then Inr (Array2 (sum_list (map shape0 As)) (shape1 A) (concat (map rows As)))
          else Inl (ValueError Concat_Mismatch))"

definition np_transpose :: "'a array2 \<Rightarrow> 'a array2" where
  "np_transpose A =
     Array2 (shape1 A) (shape0 A) (map (\<lambda>j. map (\<lambda>r. r ! j) (rows A)) [0..<shape1 A])"

definition np_zeros :: "nat \<Rightarrow> nat \<Rightarrow> ('a::zero) array2" where
  "np_zeros m n = Array2 m n (replicate m (replicate n 0))"

text \<open>\<open>np.add(A, s)\<close> with a scalar \<open>s\<close>, broadcast over the array.\<close>

definition np_add_scalar :: "('a::plus) array2 \<Rightarrow> 'a \<Rightarrow> 'a array2" where
  "np_add_scalar A s = Array2 (shape0 A) (shape1 A) (map (map (\<lambda>x. x + s)) (rows A))"

section \<open>The weight and bias transformation\<close>

text \<open>
  What \<open>process_weights_and_bias\<close> computes before it creates nodes: \<open>W\<close> and \<open>R\<close> are the
  arrays \<open>W_iofc\<close> and \<open>R_iofc\<close> (the emitted constants wrap each in one leading axis of
  size 1), \<open>B\<close> is the bias array of shape \<open>(1, 2 * bias_dim)\<close>.
\<close>

record 'a lstm_arrays =
  W_iofc :: "'a array2"
  R_iofc :: "'a array2"
  B_arr :: "'a array2"
  arr_input_size :: nat
  arr_hidden_size :: nat

text \<open>
  Lines 183 to 218 of the source, in its order, so that the first failing statement decides
  the exception. \<open>int(bias_dim/4)\<close> is true division followed by truncation, which is
  \<open>div\<close> on naturals. The dtype casts (\<open>np.zeros(..., dtype=b_dtype)\<close>,
  \<open>np.array([W_iofc], w_dtype)\<close>) keep the element values and are not modelled.
  \<open>ft\<close> is the forget-bias array, read at index 0.
\<close>

definition process_weights_and_bias_arrays ::
  "('a::{plus,zero}) array2 \<Rightarrow> 'a list \<Rightarrow> 'a list \<Rightarrow> error + 'a lstm_arrays" where
  "process_weights_and_bias_arrays w_r_icfo b_r_icfo ft_bias_scalar =
     (let bias_dim = length b_r_icfo;
          hidden_size = bias_dim div 4;
          b2 = np_reshape_row b_r_icfo
      in case np_split_axis1 b2 4 of Inl e \<Rightarrow> Inl e | Inr bias_gates \<Rightarrow>
         (case ft_bias_scalar of [] \<Rightarrow> Inl IndexError | ft0 # _ \<Rightarrow>
         (let ft_bias = np_add_scalar (bias_gates ! 2) ft0
          in case np_concatenate_axis1 [bias_gates ! 0, bias_gates ! 3, ft_bias, bias_gates ! 1] of
               Inl e \<Rightarrow> Inl e | Inr wb_bias_iofc \<Rightarrow>
         (let rb_bias_iofc = np_zeros 1 bias_dim
          in case np_concatenate_axis1 [wb_bias_iofc, rb_bias_iofc] of
               Inl e \<Rightarrow> Inl e | Inr B \<Rightarrow>
         if \<not> (shape0 B = 1 \<and> shape1 B = 2 * bias_dim) then Inl AssertionError
         else
         (let (wx, wh) = np_split_rows_neg w_r_icfo hidden_size;
              input_size = shape0 wx
          in if shape1 wx div 4 \<noteq> hidden_size then Inl AssertionError
             else case np_split_axis1 wx 4 of Inl e \<Rightarrow> Inl e | Inr w_gates \<Rightarrow>
             (case np_concatenate_axis1 [w_gates ! 0, w_gates ! 3, w_gates ! 2, w_gates ! 1] of
                Inl e \<Rightarrow> Inl e | Inr new_wx \<Rightarrow>
             (case np_split_axis1 wh 4 of Inl e \<Rightarrow> Inl e | Inr h_gates \<Rightarrow>
             (case np_concatenate_axis1 [h_gates ! 0, h_gates ! 3, h_gates ! 2, h_gates ! 1] of
                Inl e \<Rightarrow> Inl e | Inr new_wh \<Rightarrow>
                Inr \<lparr> W_iofc = np_transpose new_wx, R_iofc = np_transpose new_wh,
                      B_arr = B, arr_input_size = input_size,
                      arr_hidden_size = hidden_size \<rparr>))))))))"

section \<open>Reading the fused tensors back\<close>

text \<open>
  One row with its four gate blocks of width \<open>w\<close> in the order 0, 3, 2, 1: what
  \<open>np.concatenate((g[0], g[3], g[2], g[1]), axis=1)\<close> makes of a row.
\<close>

definition swap_gates_row :: "nat \<Rightarrow> 'a list \<Rightarrow> 'a list" where
  "swap_gates_row w r = take w r @ take w (drop (3 * w) r) @ take w (drop (2 * w) r) @ take w (drop w r)"

text \<open>
  Following the specification: the fused-order array is split back into four gate blocks
  (input, output, forget, cell) and the blocks are put in native order (input, cell,
  forget, output), that is blocks 0, 3, 2, 1 of the fused array.
\<close>

definition to_native_order :: "'a array2 \<Rightarrow> error + 'a array2" where
  "to_native_order A =
     (case np_split_axis1 A 4 of Inl e \<Rightarrow> Inl e
      | Inr g \<Rightarrow> np_concatenate_axis1 [g ! 0, g ! 3, g ! 2, g ! 1])"

text \<open>The first half of the bias row that the source builds, written on the vector.\<close>

definition fused_bias_row :: "nat \<Rightarrow> ('a::plus) \<Rightarrow> 'a list \<Rightarrow> 'a list" where
  "fused_bias_row w f b =
     take w b @ take w (drop (3 * w) b) @ map (\<lambda>x. x + f) (take w (drop (2 * w) b)) @ take w (drop w b)"

text \<open>
  Following the specification: the native bias vector with the forget-bias scalar added to
  its forget block (the third of four blocks of width \<open>h\<close>).
\<close>

definition add_forget_bias :: "nat \<Rightarrow> ('a::plus) \<Rightarrow> 'a list \<Rightarrow> 'a list" where
  "add_forget_bias h f b =
     take (2 * h) b @ map (\<lambda>x. x + f) (take h (drop (2 * h) b)) @ drop (3 * h) b"

section \<open>The graph, the rewriter and the per-match properties\<close>

text \<open>
  The source file uses the graph, its nodes, the match and the rewriter's base class only
  through their interfaces; their code is in other files of the repository. The types and
  operations of this section are modelled from the specification (sections 3 and 6).

  Python nodes are objects that several lists share and that \<open>replace_all_inputs\<close> mutates
  in place, so nodes live in a store: a \<open>ref\<close> is the identity of a node object, and
  \<open>heap\<close> gives the object's current fields. Node lists hold references; \<open>==\<close> and
  \<open>list.remove\<close> on nodes compare references.
\<close>

type_synonym ref = nat

datatype attr_value = AInt int | AInts "int list"

text \<open>A constant's value: an array of any rank, as its shape and its elements in row-major order.\<close>

datatype 'a tensor = Tensor (tshape: "nat list") (tdata: "'a list")

record 'a node =
  name :: string
  type :: string
  input :: "string list"
  outputs :: "string list"
  attr :: "(string \<times> attr_value) list"
  tensor_value :: "'a tensor option"

text \<open>
  The rewriter \<open>self\<close> together with its graph \<open>self.g\<close> and the module counter behind
  \<open>utils.make_name\<close>. \<open>must_keep_nodes\<close> holds what Python appends to the list, which is
  the result of \<open>get_node_by_name\<close> and so may be \<open>None\<close>.
\<close>

record 'a rewriter =
  heap :: "ref \<Rightarrow> 'a node"
  next_ref :: ref
  g_nodes :: "ref list"
  g_shapes :: "string \<rightharpoonup> int list"
  all_nodes :: "ref list"
  must_keep_nodes :: "ref option list"
  internal_name :: nat

record 'a rnn_weights =
  kernel :: "'a array2"
  bias :: "'a list"
  forget_bias :: "'a list"

record rnn_props =
  time_major :: bool
  input_size :: nat
  hidden_size :: nat
  var_initializers :: "string \<rightharpoonup> string"
  onnx_input_ids :: "string \<rightharpoonup> string"
  batch_size_node :: "ref option"

text \<open>Decimal digits of a number, as \<open>str\<close> and \<open>format\<close> print it.\<close>

fun string_of_nat :: "nat \<Rightarrow> string" where
  "string_of_nat n =
     (if n < 10 then [''0123456789'' ! n]
      else string_of_nat (n div 10) @ [''0123456789'' ! (n mod 10)])"

declare string_of_nat.simps [simp del]

text \<open>
  Modelled from the spec: \<open>utils.make_name\<close>, the name supply behind "node construction":
  it increments a counter and appends it to the given prefix.
\<close>

definition make_name :: "'a rewriter \<Rightarrow> string \<Rightarrow> string \<times> 'a rewriter" where
  "make_name st s =
     (s @ ''__'' @ string_of_nat (internal_name st + 1),
      st\<lparr>internal_name := internal_name st + 1\<rparr>)"

text \<open>Allocation of a node object.\<close>

definition new_node :: "'a rewriter \<Rightarrow> 'a node \<Rightarrow> ref \<times> 'a rewriter" where
  "new_node st n =
     (next_ref st, st\<lparr>heap := (heap st)(next_ref st := n), next_ref := Suc (next_ref st)\<rparr>)"

text \<open>
  Modelled from the spec: \<open>make_onnx_node(g, op_type, inputs, attr, output_count)\<close>, "node
  construction from operator-type + inputs + attributes". The node gets a fresh name and
  \<open>output_count\<close> outputs named after it; it is not put into any node list (the source
  appends the nodes it keeps to \<open>self.all_nodes\<close> itself).
\<close>

definition make_onnx_node ::
  "'a rewriter \<Rightarrow> string \<Rightarrow> string list \<Rightarrow> (string \<times> attr_value) list \<Rightarrow> nat
    \<Rightarrow> ref \<times> 'a rewriter" where
  "make_onnx_node st op_type inputs attrs output_count =
     (let (node_name, st1) = make_name st op_type
      in new_node st1
           \<lparr>name = node_name, type = op_type, input = inputs,
            outputs = map (\<lambda>i. node_name @ '':'' @ string_of_nat i) [0..<output_count],
            attr = attrs, tensor_value = None\<rparr>)"

text \<open>
  Modelled from the spec: \<open>g.make_const(name, value)\<close>, a new constant node of the graph
  holding \<open>value\<close>, with the single output \<open>name\<close>. The graph keeps it (the source never
  appends a constant to \<open>self.all_nodes\<close>).
\<close>

definition make_const :: "'a rewriter \<Rightarrow> string \<Rightarrow> 'a tensor \<Rightarrow> ref \<times> 'a rewriter" where
  "make_const st nm val =
     (let (r, st1) = new_node st
            \<lparr>name = nm, type = ''Const'', input = [], outputs = [nm], attr = [],
             tensor_value = Some val\<rparr>
      in (r, st1\<lparr>g_nodes := g_nodes st1 @ [r]\<rparr>))"

text \<open>
  Modelled from the spec: \<open>g.get_node_by_name(id)\<close>, "node/tensor lookup by id": the node
  of the graph with that name or producing that tensor, \<open>None\<close> when there is none.
\<close>

definition get_node_by_name :: "'a rewriter \<Rightarrow> string \<Rightarrow> ref option" where
  "get_node_by_name st n =
     find (\<lambda>r. name (heap st r) = n \<or> n \<in> set (outputs (heap st r))) (g_nodes st)"

text \<open>
  Modelled from the spec: \<open>g.find_output_consumers(id)\<close>, "consumer-set lookup for a
  tensor": the nodes of the graph that have the tensor among their inputs.
\<close>

definition find_output_consumers :: "'a rewriter \<Rightarrow> string \<Rightarrow> ref list" where
  "find_output_consumers st out_id = filter (\<lambda>r. out_id \<in> set (input (heap st r))) (g_nodes st)"

text \<open>
  Modelled from the spec: \<open>g.replace_all_inputs(nodes, old, new)\<close>, "every reference to the
  old tensor id across all retained nodes is rewritten to the new tensor id". The node
  objects are changed in place, so every list that holds them sees the change.
\<close>

definition replace_all_inputs ::
  "'a rewriter \<Rightarrow> ref list \<Rightarrow> string \<Rightarrow> string \<Rightarrow> 'a rewriter" where
  "replace_all_inputs st nodes old new =
     st\<lparr>heap := (\<lambda>r. if r \<in> set nodes
                      then (heap st r)\<lparr>input := map (\<lambda>i. if i = old then new else i)
                                                   (input (heap st r))\<rparr>
                      else heap st r)\<rparr>"

text \<open>\<open>g.get_shape\<close> and \<open>g.set_shape\<close> read and write \<open>g_shapes\<close>.\<close>

definition set_shape :: "'a rewriter \<Rightarrow> string \<Rightarrow> int list \<Rightarrow> 'a rewriter" where
  "set_shape st out_id sh = st\<lparr>g_shapes := (g_shapes st)(out_id \<mapsto> sh)\<rparr>"

text \<open>\<open>node.output[0]\<close>, which raises IndexError on a node without outputs.\<close>

definition output0 :: "'a node \<Rightarrow> error + string" where
  "output0 n = (case outputs n of [] \<Rightarrow> Inl IndexError | x # _ \<Rightarrow> Inr x)"

text \<open>
  \<open>node.inputs[k]\<close>: the list of the nodes producing the inputs (each looked up with
  \<open>get_node_by_name\<close>, so an entry may be \<open>None\<close>), read at index \<open>k\<close>.
\<close>

definition node_inputs_nth :: "'a rewriter \<Rightarrow> ref \<Rightarrow> nat \<Rightarrow> error + ref option" where
  "node_inputs_nth st r k =
     (let ins = input (heap st r)
      in if k < length ins then Inr (get_node_by_name st (ins ! k)) else Inl IndexError)"

text \<open>
  Modelled from the spec: \<open>node.get_tensor_value()\<close>, "constant-value decoding"; calling
  it on \<open>None\<close> is an AttributeError, on a node without a constant a ValueError.
\<close>

definition get_tensor_value :: "'a rewriter \<Rightarrow> ref option \<Rightarrow> error + 'a tensor" where
  "get_tensor_value st ro =
     (case ro of
        None \<Rightarrow> Inl AttributeError
      | Some r \<Rightarrow>
          (case tensor_value (heap st r) of
             None \<Rightarrow> Inl (ValueError Not_Const)
           | Some t \<Rightarrow> Inr t))"

text \<open>Modelled from the spec: \<open>node.is_const()\<close>, "a resolvable constant".\<close>

definition is_const :: "'a node \<Rightarrow> bool" where
  "is_const n \<longleftrightarrow> type n = ''Const''"

text \<open>\<open>np.expand_dims(val, axis=0)\<close> and \<open>np.array([A], dtype)\<close> add a leading axis of size 1.\<close>

definition np_expand_dims0 :: "'a tensor \<Rightarrow> 'a tensor" where
  "np_expand_dims0 t = Tensor (1 # tshape t) (tdata t)"

definition tensor_of_array2 :: "'a array2 \<Rightarrow> 'a tensor" where
  "tensor_of_array2 A = Tensor [shape0 A, shape1 A] (concat (rows A))"


section \<open>Weights and bias: the emitted constants\<close>

text \<open>
  \<open>process_weights_and_bias\<close>: the arrays of lines 183 to 218, then the three constants
  (\<open>W\<close> and \<open>R\<close> with their leading axis of size 1) and the updates of \<open>rnn_props\<close>. An
  exception of the array part leaves before any node is made.
\<close>

definition process_weights_and_bias ::
  "('a::{plus,zero}) rewriter \<Rightarrow> 'a rnn_weights \<Rightarrow> rnn_props
    \<Rightarrow> (error + rnn_props \<times> nat \<times> nat) \<times> 'a rewriter" where
  "process_weights_and_bias st rnn_weights rnn_props =
     (case process_weights_and_bias_arrays (kernel rnn_weights) (bias rnn_weights)
             (forget_bias rnn_weights) of
        Inl e \<Rightarrow> (Inl e, st)
      | Inr a \<Rightarrow>
          (let W = np_expand_dims0 (tensor_of_array2 (W_iofc a));
               R = np_expand_dims0 (tensor_of_array2 (R_iofc a));
               B = tensor_of_array2 (B_arr a);
               (w_name, st1) = make_name st ''W'';
               (w_node, st2) = make_const st1 w_name W;
               (r_name, st3) = make_name st2 ''R'';
               (r_node, st4) = make_const st3 r_name R;
               (b_name, st5) = make_name st4 ''B'';
               (b_node, st6) = make_const st5 b_name B
           in (Inr (rnn_props\<lparr>input_size := arr_input_size a,
                              hidden_size := arr_hidden_size a,
                              onnx_input_ids := (onnx_input_ids rnn_props)
                                (''W'' \<mapsto> hd (outputs (heap st6 w_node)),
                                 ''R'' \<mapsto> hd (outputs (heap st6 r_node)),
                                 ''B'' \<mapsto> hd (outputs (heap st6 b_node)))\<rparr>,
                    arr_input_size a, arr_hidden_size a),
               st6)))"

section \<open>The loop-state checks\<close>

text \<open>
  Modelled from the spec: the match is a read-only mapping from role names to nodes, and
  the absence of a required role aborts; \<open>match.get_op(role)\<close> is the lookup.
\<close>

definition get_op :: "(string \<rightharpoonup> ref) \<Rightarrow> string \<Rightarrow> error + ref" where
  "get_op m role = (case m role of None \<Rightarrow> Inl KeyError | Some r \<Rightarrow> Inr r)"

text \<open>
  \<open>_ht_switch_check\<close>. The comprehension calls \<open>match.get_op("xh")\<close> once per consumer, so
  with no consumer the role is never looked up.
\<close>

definition ht_switch_check ::
  "string \<Rightarrow> ref list \<Rightarrow> (string \<rightharpoonup> ref) \<Rightarrow> error + string option" where
  "ht_switch_check enter_target_node_input_id identity_consumers m =
     (if identity_consumers = [] then Inr None
      else case get_op m ''xh'' of
             Inl e \<Rightarrow> Inl e
           | Inr xh \<Rightarrow>
               (let concat_nodes = filter (\<lambda>c. c = xh) identity_consumers
                in if length concat_nodes = 1 then Inr (Some enter_target_node_input_id)
                   else Inr None))"



section \<open>The initial states\<close>

text \<open>
  \<open>_workaround_fill_ch_init_node\<close>. The element type of the fill value
  (\<open>utils.ONNX_TO_NUMPY_DTYPE[...]\<close>) is not modelled. \<open>onnx_pb.TensorProto.INT64\<close> is 7.
  A node that the function has just made has one output, read with \<open>hd\<close>.
\<close>

definition workaround_fill_ch_init_node ::
  "('a::semiring_1) rewriter \<Rightarrow> string \<Rightarrow> rnn_props
    \<Rightarrow> (error + ref option) \<times> 'a rewriter" where
  "workaround_fill_ch_init_node st initializer_input_id rnn_props =
     (case get_node_by_name st initializer_input_id of
        None \<Rightarrow> (Inl AttributeError, st)
      | Some node \<Rightarrow>
          if type (heap st node) \<noteq> ''Fill'' then (Inr None, st)
          else if Some node \<notin> set (must_keep_nodes st) then (Inl (ValueError Not_In_List), st)
          else
            (let st1 = st\<lparr>must_keep_nodes := remove1 (Some node) (must_keep_nodes st)\<rparr>
             in case node_inputs_nth st1 node 1 of Inl e \<Rightarrow> (Inl e, st1) | Inr i1 \<Rightarrow>
               (case get_tensor_value st1 i1 of Inl e \<Rightarrow> (Inl e, st1) | Inr v \<Rightarrow>
               (case tdata v of [] \<Rightarrow> (Inl IndexError, st1) | fill_val # _ \<Rightarrow>
               (let (n1, st2) = make_name st1 ''Const'';
                    (num_direction_node, st3) = make_const st2 n1 (Tensor [1] [1]);
                    (n2, st4) = make_name st3 ''Const'';
                    (h_node, st5) = make_const st4 n2 (Tensor [1] [of_nat (hidden_size rnn_props)])
                in case batch_size_node rnn_props of
                     None \<Rightarrow> (Inl AttributeError, st5)
                   | Some b_node \<Rightarrow>
                       (case output0 (heap st5 b_node) of
                          Inl e \<Rightarrow> (Inl e, st5)
                        | Inr b_out \<Rightarrow>
                            (let (tile_shape, st6) = make_onnx_node st5 ''Concat''
                                   [hd (outputs (heap st5 num_direction_node)), b_out,
                                    hd (outputs (heap st5 h_node))] [(''axis'', AInt 0)] 1;
                                 (tile_shape_int64, st7) = make_onnx_node st6 ''Cast''
                                   [hd (outputs (heap st6 tile_shape))] [(''to'', AInt 7)] 1;
                                 (n3, st8) = make_name st7 ''Const'';
                                 (const_node, st9) = make_const st8 n3 (Tensor [1, 1, 1] [fill_val]);
                                 (tile_node, st10) = make_onnx_node st9 ''Tile''
                                   [hd (outputs (heap st9 const_node)),
                                    hd (outputs (heap st9 tile_shape_int64))] [] 1
                             in (Inr (Some tile_node),
                                 st10\<lparr>all_nodes := all_nodes st10 @
                                         [tile_shape, tile_shape_int64, tile_node]\<rparr>))))))))"

text \<open>\<open>_process_non_tuple_ch_init_nodes\<close>; it returns \<open>(init_h_id, init_c_id)\<close>.\<close>

definition process_non_tuple_ch_init_nodes ::
  "('a::semiring_1) rewriter \<Rightarrow> rnn_props \<Rightarrow> (error + string \<times> string) \<times> 'a rewriter" where
  "process_non_tuple_ch_init_nodes st rnn_props =
     (case var_initializers rnn_props ''ct_ht'' of
        None \<Rightarrow> (Inl KeyError, st)
      | Some input_id \<Rightarrow>
          (case workaround_fill_ch_init_node st input_id rnn_props of
             (Inl e, st1) \<Rightarrow> (Inl e, st1)
           | (Inr (Some fill_ch_init_node), st1) \<Rightarrow>
               (Inr (hd (outputs (heap st1 fill_ch_init_node)),
                     hd (outputs (heap st1 fill_ch_init_node))), st1)
           | (Inr None, st1) \<Rightarrow>
               (let h = int (hidden_size rnn_props);
                    (slice_node1, st2) = make_onnx_node st1 ''Slice'' [input_id]
                       [(''axes'', AInts [1]), (''starts'', AInts [0]), (''ends'', AInts [h])] 1;
                    (unsqueeze_node_1, st3) = make_onnx_node st2 ''Unsqueeze''
                       [hd (outputs (heap st2 slice_node1))] [(''axes'', AInts [0])] 1;
                    (slice_node2, st4) = make_onnx_node st3 ''Slice'' [input_id]
                       [(''axes'', AInts [1]), (''starts'', AInts [h]), (''ends'', AInts [h * 2])] 1;
                    (unsqueeze_node_2, st5) = make_onnx_node st4 ''Unsqueeze''
                       [hd (outputs (heap st4 slice_node2))] [(''axes'', AInts [0])] 1;
                    st6 = st5\<lparr>all_nodes := all_nodes st5 @
                             [slice_node1, slice_node2, unsqueeze_node_1, unsqueeze_node_2]\<rparr>;
                    st7 = st6\<lparr>must_keep_nodes := must_keep_nodes st6 @
                             [get_node_by_name st6 input_id]\<rparr>
                in (Inr (hd (outputs (heap st7 unsqueeze_node_1)),
                         hd (outputs (heap st7 unsqueeze_node_2))), st7))))"

text \<open>\<open>_process_c_or_h_init_nodes\<close>.\<close>

definition process_c_or_h_init_nodes ::
  "('a::semiring_1) rewriter \<Rightarrow> string \<Rightarrow> rnn_props \<Rightarrow> (error + string) \<times> 'a rewriter" where
  "process_c_or_h_init_nodes st initializer_input_id rnn_props =
     (case workaround_fill_ch_init_node st initializer_input_id rnn_props of
        (Inl e, st1) \<Rightarrow> (Inl e, st1)
      | (Inr (Some fill_ch_init_node), st1) \<Rightarrow>
          (Inr (hd (outputs (heap st1 fill_ch_init_node))), st1)
      | (Inr None, st1) \<Rightarrow>
          (let node = get_node_by_name st1 initializer_input_id;
               st2 = st1\<lparr>must_keep_nodes := must_keep_nodes st1 @ [node]\<rparr>
           in case node of
                None \<Rightarrow> (Inl AttributeError, st2)
              | Some r \<Rightarrow>
                  if is_const (heap st2 r)
                  then
                    (case get_tensor_value st2 node of
                       Inl e \<Rightarrow> (Inl e, st2)
                     | Inr val \<Rightarrow>
                         (let (initial_name, st3) = make_name st2 ''Const'';
                              new_val = np_expand_dims0 val;
                              (const_node, st4) = make_const st3 initial_name new_val
                          in (Inr (hd (outputs (heap st4 const_node))), st4)))
                  else
                    (let (squeeze_node, st3) = make_onnx_node st2 ''Unsqueeze''
                            [initializer_input_id] [(''axes'', AInts [0])] 1;
                         squeeze_out = hd (outputs (heap st3 squeeze_node));
                         st4 = replace_all_inputs st3 (g_nodes st3) initializer_input_id squeeze_out;
                         st5 = st4\<lparr>all_nodes := all_nodes st4 @ [squeeze_node]\<rparr>
                     in (Inr squeeze_out, st5))))"

text \<open>\<open>_process_tuple_ch_init_nodes\<close>: the hidden state first, then the cell state.\<close>

definition process_tuple_ch_init_nodes ::
  "('a::semiring_1) rewriter \<Rightarrow> rnn_props \<Rightarrow> (error + string \<times> string) \<times> 'a rewriter" where
  "process_tuple_ch_init_nodes st rnn_props =
     (case var_initializers rnn_props ''ht'' of
        None \<Rightarrow> (Inl KeyError, st)
      | Some h_init_input_id \<Rightarrow>
          (case var_initializers rnn_props ''ct'' of
             None \<Rightarrow> (Inl KeyError, st)
           | Some c_init_input_id \<Rightarrow>
               (case process_c_or_h_init_nodes st h_init_input_id rnn_props of
                  (Inl e, st1) \<Rightarrow> (Inl e, st1)
                | (Inr h_node_output, st1) \<Rightarrow>
                    (case process_c_or_h_init_nodes st1 c_init_input_id rnn_props of
                       (Inl e, st2) \<Rightarrow> (Inl e, st2)
                     | (Inr c_node_output, st2) \<Rightarrow>
                         (Inr (h_node_output, c_node_output), st2)))))"

text \<open>
  \<open>process_var_init_nodes\<close>. The assertion \<open>init_h_id and init_c_id\<close> holds for non-empty
  strings. On success the updated \<open>rnn_props\<close> is returned.
\<close>

definition process_var_init_nodes ::
  "('a::semiring_1) rewriter \<Rightarrow> rnn_props \<Rightarrow> (error + rnn_props) \<times> 'a rewriter" where
  "process_var_init_nodes st rnn_props =
     (case (if var_initializers rnn_props ''ct_ht'' \<noteq> None
            then process_non_tuple_ch_init_nodes st rnn_props
            else if var_initializers rnn_props ''ct'' \<noteq> None \<and>
                    var_initializers rnn_props ''ht'' \<noteq> None
            then process_tuple_ch_init_nodes st rnn_props
            else (Inl (ValueError No_Initializers), st)) of
        (Inl e, st1) \<Rightarrow> (Inl e, st1)
      | (Inr (init_h_id, init_c_id), st1) \<Rightarrow>
          if init_h_id = [] \<or> init_c_id = [] then (Inl AssertionError, st1)
          else (Inr (rnn_props\<lparr>onnx_input_ids := (onnx_input_ids rnn_props)
                       (''initial_h'' \<mapsto> init_h_id, ''initial_c'' \<mapsto> init_c_id)\<rparr>), st1))"

section \<open>Reconnecting the accumulated output\<close>





section \<open>Example inputs\<close>

text \<open>Small graphs and properties on which the theorems below are instantiated.\<close>

definition mk_node :: "string \<Rightarrow> string \<Rightarrow> string list \<Rightarrow> string list \<Rightarrow> 'a node" where
  "mk_node nm ty ins outs =
     \<lparr>name = nm, type = ty, input = ins, outputs = outs, attr = [], tensor_value = None\<rparr>"

definition rewriter_of :: "'a node list \<Rightarrow> 'a rewriter" where
  "rewriter_of ns =
     \<lparr>heap = (\<lambda>r. if r < length ns then ns ! r else mk_node [] [] [] []),
      next_ref = length ns, g_nodes = [0..<length ns], g_shapes = Map.empty,
      all_nodes = [0..<length ns], must_keep_nodes = [], internal_name = 0\<rparr>"

definition props_of :: "(string \<rightharpoonup> string) \<Rightarrow> rnn_props" where
  "props_of vi =
     \<lparr>time_major = True, input_size = 0, hidden_size = 3, var_initializers = vi,
      onnx_input_ids = Map.empty, batch_size_node = None\<rparr>"

text \<open>
  Every node of the graph has been allocated: no reference of the graph's node list is one
  that a later allocation will hand out.
\<close>

definition refs_allocated :: "'a rewriter \<Rightarrow> bool" where
  "refs_allocated st \<longleftrightarrow> list_all (\<lambda>r. r < next_ref st) (g_nodes st)"

text \<open>
  A graph of three placeholder nodes, none of them a Fill, with properties that name the
  first as shared initializer and the other two as cell and hidden initializers; and a graph
  whose single node is a Fill that the must-keep list does not hold.
\<close>

definition ex_init_graph :: "int rewriter" where
  "ex_init_graph = rewriter_of
     [mk_node ''init'' ''Placeholder'' [] [''init:0''],
      mk_node ''c'' ''Placeholder'' [] [''c:0''],
      mk_node ''h'' ''Placeholder'' [] [''h:0'']]"

definition ex_all_three_props :: rnn_props where
  "ex_all_three_props =
     props_of [''ct_ht'' \<mapsto> ''init:0'', ''ct'' \<mapsto> ''c:0'', ''ht'' \<mapsto> ''h:0'']"

definition ex_fill_graph :: "int rewriter" where
  "ex_fill_graph = rewriter_of [mk_node ''zeros'' ''Fill'' [''dims:0'', ''value:0''] [''zeros:0'']]"

section \<open>Reading an emitted constant\<close>

text \<open>
  \<open>T[0]\<close> of a tensor: the first slice along the leading axis. And a two-dimensional
  tensor as an array of rows, \<open>None\<close> for any other rank.
\<close>

definition tensor_index0 :: "'a tensor \<Rightarrow> 'a tensor" where
  "tensor_index0 t =
     Tensor (tl (tshape t)) (take (prod_list (tl (tshape t))) (tdata t))"

definition array2_of_tensor :: "'a tensor \<Rightarrow> 'a array2 option" where
  "array2_of_tensor t =
     (case tshape t of
        [m, n] \<Rightarrow> Some (Array2 m n (map (\<lambda>i. take n (drop (i * n) (tdata t))) [0..<m]))
      | _ \<Rightarrow> None)"

text \<open>Example weights: input size 2, hidden size 1, forget bias 100.\<close>

definition ex_weights :: "int rnn_weights" where
  "ex_weights =
     \<lparr>kernel = Array2 3 4 [[1, 2, 3, 4], [5, 6, 7, 8], [9, 10, 11, 12]],
      bias = [10, 20, 30, 40], forget_bias = [100]\<rparr>"













text \<open>
  The output ids of the two nodes that the reconnection makes (the squeeze first, then the
  transpose), as \<open>make_onnx_node\<close> above names them, and the state at the point where the
  source looks for the transpose after the gather: the squeeze node exists and its output
  has its shape \<open>[shape[0], shape[2], shape[3]]\<close> of the fused node's output shape.
\<close>

definition squeeze_output_id :: "'a rewriter \<Rightarrow> string" where
  "squeeze_output_id st = ''Squeeze__'' @ string_of_nat (internal_name st + 1) @ '':0''"


definition state_after_squeeze :: "'a rewriter \<Rightarrow> string \<Rightarrow> int list \<Rightarrow> 'a rewriter" where
  "state_after_squeeze st lstm_out sh =
     set_shape (snd (make_onnx_node st ''Squeeze'' [lstm_out] [(''axes'', AInts [1])] 1))
       (squeeze_output_id st) [sh ! 0, sh ! 2, sh ! 3]"




section \<open>Properties of the weight and bias transformation\<close>

lemma upt_4: "[0..<4] = [0, 1, 2, 3]"
  by (simp add: upt_rec)

lemma upt_2: "[0..<2] = [0, 1]"
  by (simp add: upt_rec)

lemma np_split4: "shape1 A = 4 * w \<Longrightarrow>
  np_split_axis1 A 4 = Inr (map (\<lambda>k. Array2 (shape0 A) w (map (\<lambda>r. take w (drop (k * w) r)) (rows A))) [0, 1, 2, 3])"
  by (simp add: np_split_axis1_def upt_4)

lemma regate:
  assumes "length (rows A) = shape0 A" "shape1 A = 4 * w"
  shows "to_native_order A = Inr (Array2 (shape0 A) (4 * w) (map (swap_gates_row w) (rows A)))"
  using assms
  by (simp add: to_native_order_def np_split4 np_concatenate_axis1_def swap_gates_row_def
      list_eq_iff_nth_eq)

lemma swap_gates_row_invol:
  "length r = 4 * w \<Longrightarrow> swap_gates_row w (swap_gates_row w r) = r"
proof -
  assume len: "length r = 4 * w"
  define a where "a = take w r"
  define b where "b = take w (drop w r)"
  define c where "c = take w (drop (2 * w) r)"
  define d where "d = take w (drop (3 * w) r)"
  have la: "length a = w" and lb: "length b = w" and lc: "length c = w" and ld: "length d = w"
    using len by (simp_all add: a_def b_def c_def d_def)
  have step: "drop k r = take w (drop k r) @ drop (k + w) r" for k
    by (metis append_take_drop_id drop_drop add.commute)
  have r: "r = a @ b @ c @ d"
  proof -
    have "r = a @ drop w r"
      using step [of 0] by (simp add: a_def)
    also have "drop w r = b @ drop (2 * w) r"
      using step [of w] by (simp add: b_def mult_2)
    also have "drop (2 * w) r = c @ drop (3 * w) r"
      using step [of "2 * w"] by (simp add: c_def)
    also have "drop (3 * w) r = d"
      using len by (simp add: d_def)
    finally show ?thesis by simp
  qed
  have s: "swap_gates_row w (x @ y @ z @ u) = x @ u @ z @ y"
    if "length x = w" "length y = w" "length z = w" "length u = w" for x y z u :: "'a list"
    using that by (simp add: swap_gates_row_def)
  show ?thesis
    by (simp add: r s la lb lc ld)
qed

lemma transpose_invol:
  "wf_array2 A \<Longrightarrow> np_transpose (np_transpose A) = A"
  apply (cases A)
  apply (auto simp: wf_array2_def np_transpose_def list_all_iff list_eq_iff_nth_eq)
  done

lemma concat4_rows:
  "length xs = n \<Longrightarrow>
   np_concatenate_axis1 [Array2 n a (map f1 xs), Array2 n b (map f2 xs),
                         Array2 n c (map f3 xs), Array2 n d (map f4 xs)] =
   Inr (Array2 n (a + b + c + d) (map (\<lambda>r. f1 r @ f2 r @ f3 r @ f4 r) xs))"
  by (simp add: np_concatenate_axis1_def list_eq_iff_nth_eq)

lemma concat4_single:
  "np_concatenate_axis1 [Array2 (Suc 0) a [r1], Array2 (Suc 0) b [r2],
                         Array2 (Suc 0) c [r3], Array2 (Suc 0) d [r4]] =
   Inr (Array2 (Suc 0) (a + b + c + d) [r1 @ r2 @ r3 @ r4])"
  by (simp add: np_concatenate_axis1_def)

lemma concat2_single:
  "np_concatenate_axis1 [Array2 (Suc 0) a [r1], Array2 (Suc 0) b [r2]] =
   Inr (Array2 (Suc 0) (a + b) [r1 @ r2])"
  by (simp add: np_concatenate_axis1_def)

lemma pwb_success:
  fixes w_r_icfo :: "('a::{plus,zero}) array2"
  assumes "length (rows w_r_icfo) = shape0 w_r_icfo" "shape1 w_r_icfo = 4 * h" "length b_r_icfo = 4 * h"
  defines "p \<equiv> (if h = 0 then 0 else shape0 w_r_icfo - h)"
  shows "process_weights_and_bias_arrays w_r_icfo b_r_icfo (f # fs) =
     Inr \<lparr> W_iofc = np_transpose (Array2 p (4 * h)
                          (map (swap_gates_row h) (take p (rows w_r_icfo)))),
           R_iofc = np_transpose (Array2 (shape0 w_r_icfo - p) (4 * h)
                          (map (swap_gates_row h) (drop p (rows w_r_icfo)))),
           B_arr = Array2 1 (8 * h) [fused_bias_row h f b_r_icfo @ replicate (4 * h) 0],
           arr_input_size = p, arr_hidden_size = h \<rparr>"
proof -
  have p: "min p (shape0 w_r_icfo) = p"
    by (simp add: p_def)
  have lt: "length (take p (rows w_r_icfo)) = p"
    using assms(1) by (simp add: p_def)
  have ld: "length (drop p (rows w_r_icfo)) = shape0 w_r_icfo - p"
    using assms(1) by simp
  have sw: "(\<lambda>r. take h r @ take h (drop (3 * h) r) @ take h (drop (2 * h) r) @ take h (drop h r))
      = swap_gates_row h"
    by (simp add: swap_gates_row_def fun_eq_iff)
  have four: "h + h + h + h = 4 * h"
    by simp
  show ?thesis
    using assms(2,3)
    by (simp add: four process_weights_and_bias_arrays_def np_reshape_row_def np_split4
      concat4_single concat2_single concat4_rows [OF lt] concat4_rows [OF ld]
      np_add_scalar_def np_zeros_def np_split_rows_neg_def Let_def
      fused_bias_row_def p sw flip: p_def)
qed

lemma swap_gates_row_append:
  "length x = w \<Longrightarrow> length y = w \<Longrightarrow> length z = w \<Longrightarrow> length u = w \<Longrightarrow>
   swap_gates_row w (x @ y @ z @ u) = x @ u @ z @ y"
  by (simp add: swap_gates_row_def)

lemma swap_fused_bias_row:
  assumes "length b = 4 * h"
  shows "swap_gates_row h (fused_bias_row h f b) = add_forget_bias h f b"
proof -
  have "take (2 * h) b = take h b @ take h (drop h b)"
    by (simp add: mult_2 take_add)
  moreover have "drop (3 * h) b = take h (drop (3 * h) b)"
    using assms by simp
  ultimately show ?thesis
    using assms by (simp add: fused_bias_row_def add_forget_bias_def swap_gates_row_append)
qed

lemma wf_swapped:
  assumes "wf_array2 A" "shape1 A = 4 * h" "set xs \<subseteq> set (rows A)"
  shows "wf_array2 (Array2 (length xs) (4 * h) (map (swap_gates_row h) xs))"
  using assms by (auto simp: wf_array2_def list_all_iff swap_gates_row_def)

lemma map_swap_swap:
  assumes "wf_array2 A" "shape1 A = 4 * h" "set xs \<subseteq> set (rows A)"
  shows "map (swap_gates_row h) (map (swap_gates_row h) xs) = xs"
proof -
  have "swap_gates_row h (swap_gates_row h r) = r" if "r \<in> set xs" for r
    using assms that by (auto simp: wf_array2_def list_all_iff intro: swap_gates_row_invol)
  then show ?thesis
    by (simp add: map_idI)
qed

lemma native_of_fused_block:
  assumes "wf_array2 A" "shape1 A = 4 * h" "set xs \<subseteq> set (rows A)"
  shows "to_native_order (np_transpose (np_transpose
           (Array2 (length xs) (4 * h) (map (swap_gates_row h) xs)))) =
         Inr (Array2 (length xs) (4 * h) xs)"
proof -
  let ?X = "Array2 (length xs) (4 * h) (map (swap_gates_row h) xs)"
  have "np_transpose (np_transpose ?X) = ?X"
    by (rule transpose_invol) (rule wf_swapped [OF assms])
  moreover have "to_native_order ?X = Inr (Array2 (length xs) (4 * h) xs)"
    using regate [of ?X h] map_swap_swap [OF assms] by simp
  ultimately show ?thesis by simp
qed

text \<open>
  The arrays of the transformation: for a kernel \<open>w_r_icfo\<close> of shape \<open>(rows, 4 * h)\<close> and
  a bias \<open>b_r_icfo\<close> of length \<open>4 * h\<close> they are computed without exception, and reading
  them back in native order gives the kernel and the bias with the forget-bias scalar added
  to its forget block.
\<close>

lemma arrays_gate_reordering:
  fixes w_r_icfo :: "('a::{plus,zero}) array2"
  assumes "wf_array2 w_r_icfo"
    and "shape1 w_r_icfo = 4 * h"
    and "length b_r_icfo = 4 * h"
    and "ft \<noteq> []"
  shows "\<exists>out W' R' halves B'.
     process_weights_and_bias_arrays w_r_icfo b_r_icfo ft = Inr out \<and>
     to_native_order (np_transpose (W_iofc out)) = Inr W' \<and>
     to_native_order (np_transpose (R_iofc out)) = Inr R' \<and>
     np_concatenate_axis0 [W', R'] = Inr w_r_icfo \<and>
     np_split_axis1 (B_arr out) 2 = Inr halves \<and>
     to_native_order (halves ! 0) = Inr B' \<and>
     B' = np_reshape_row (add_forget_bias h (hd ft) b_r_icfo)"
proof -
  obtain f fs where ft: "ft = f # fs"
    using assms(4) by (cases ft) auto
  define p where "p = (if h = 0 then 0 else shape0 w_r_icfo - h)"
  have len: "length (rows w_r_icfo) = shape0 w_r_icfo"
    using assms(1) by (simp add: wf_array2_def)
  have lt: "length (take p (rows w_r_icfo)) = p"
    using len by (simp add: p_def)
  have ld: "length (drop p (rows w_r_icfo)) = shape0 w_r_icfo - p"
    using len by simp
  note out = pwb_success [OF len assms(2,3), of f fs, folded p_def]
  have W: "to_native_order (np_transpose (np_transpose
             (Array2 p (4 * h) (map (swap_gates_row h) (take p (rows w_r_icfo))))))
           = Inr (Array2 p (4 * h) (take p (rows w_r_icfo)))"
    using native_of_fused_block [OF assms(1,2), of "take p (rows w_r_icfo)"] lt
    by (simp add: set_take_subset)
  have R: "to_native_order (np_transpose (np_transpose
             (Array2 (shape0 w_r_icfo - p) (4 * h)
                (map (swap_gates_row h) (drop p (rows w_r_icfo))))))
           = Inr (Array2 (shape0 w_r_icfo - p) (4 * h) (drop p (rows w_r_icfo)))"
    using native_of_fused_block [OF assms(1,2), of "drop p (rows w_r_icfo)"] ld
    by (simp add: set_drop_subset)
  have ple: "p \<le> shape0 w_r_icfo"
    by (simp add: p_def)
  have K: "np_concatenate_axis0 [Array2 p (4 * h) (take p (rows w_r_icfo)),
             Array2 (shape0 w_r_icfo - p) (4 * h) (drop p (rows w_r_icfo))] = Inr w_r_icfo"
    using assms(2) ple by (cases w_r_icfo) (simp add: np_concatenate_axis0_def)
  have H: "np_split_axis1 (Array2 1 (8 * h)
              [fused_bias_row h f b_r_icfo @ replicate (4 * h) 0]) 2 =
           Inr [Array2 1 (4 * h) [fused_bias_row h f b_r_icfo],
                Array2 1 (4 * h) [replicate (4 * h) (0::'a)]]"
    using assms(3) by (simp add: np_split_axis1_def upt_2 fused_bias_row_def Let_def)
  have lf: "length (fused_bias_row h f b_r_icfo) = 4 * h"
    using assms(3) by (simp add: fused_bias_row_def)
  have B: "to_native_order (Array2 1 (4 * h) [fused_bias_row h f b_r_icfo]) =
           Inr (np_reshape_row (add_forget_bias h f b_r_icfo))"
    using regate [of "Array2 1 (4 * h) [fused_bias_row h f b_r_icfo]" h]
      swap_fused_bias_row [OF assms(3), of f] lf
    by (simp add: np_reshape_row_def add_forget_bias_def assms(3))
  show ?thesis
    unfolding ft using out W R K H B by simp
qed

lemma pwb_Inl_unequal:
  "length b mod 4 \<noteq> 0 \<Longrightarrow>
   process_weights_and_bias_arrays w b ft = Inl (ValueError Unequal_Split)"
  by (simp add: process_weights_and_bias_arrays_def np_split_axis1_def np_reshape_row_def)

lemma pwb_InrD:
  assumes "process_weights_and_bias_arrays w b ft = Inr a"
  shows "length b = 4 * arr_hidden_size a"
proof -
  have m: "length b mod 4 = 0"
    using assms pwb_Inl_unequal [of b w ft] by (cases "length b mod 4 = 0") auto
  have "arr_hidden_size a = length b div 4"
    using assms
    by (auto simp: process_weights_and_bias_arrays_def Let_def
        split: sum.splits list.splits if_splits prod.splits)
  with m show ?thesis by presburger
qed




text \<open>
  Claim C3. A bias whose length is not a multiple of 4 makes \<open>process_weights_and_bias\<close>
  raise the ValueError of \<open>np.split\<close> before any node is made (the state is unchanged);
  whenever the function returns, the bias length is exactly four times the hidden size it
  returns and records in \<open>rnn_props\<close>.
\<close>

theorem hidden_size_exact:
  "(length (bias w) mod 4 \<noteq> 0 \<longrightarrow>
      process_weights_and_bias st w props = (Inl (ValueError Unequal_Split), st)) \<and>
   (\<forall>r st'. process_weights_and_bias st w props = (Inr r, st') \<longrightarrow>
      length (bias w) = 4 * snd (snd r) \<and> hidden_size (fst r) = snd (snd r))"
proof (intro conjI impI allI)
  assume "length (bias w) mod 4 \<noteq> 0"
  then show "process_weights_and_bias st w props = (Inl (ValueError Unequal_Split), st)"
    by (simp add: process_weights_and_bias_def pwb_Inl_unequal)
next
  fix r st'
  assume a: "process_weights_and_bias st w props = (Inr r, st')"
  then obtain out where out: "process_weights_and_bias_arrays (kernel w) (bias w) (forget_bias w) = Inr out"
    by (cases "process_weights_and_bias_arrays (kernel w) (bias w) (forget_bias w)")
       (auto simp: process_weights_and_bias_def)
  have r: "snd (snd r) = arr_hidden_size out" "hidden_size (fst r) = arr_hidden_size out"
    using a out by (auto simp: process_weights_and_bias_def Let_def split: prod.splits)
  show "length (bias w) = 4 * snd (snd r)"
    using pwb_InrD [OF out] r by simp
  show "hidden_size (fst r) = snd (snd r)"
    using r by simp
qed


theorem hidden_size_exact_witness:
  "length (bias \<lparr>kernel = Array2 1 4 [[1, 2, 3, 4::int]], bias = [1, 2, 3, 4, 5],
                 forget_bias = [1]\<rparr>) mod 4 \<noteq> 0 \<and>
   process_weights_and_bias (rewriter_of [])
     \<lparr>kernel = Array2 1 4 [[1, 2, 3, 4::int]], bias = [1, 2, 3, 4, 5], forget_bias = [1]\<rparr>
     (props_of Map.empty) = (Inl (ValueError Unequal_Split), rewriter_of []) \<and>
   (\<exists>r st'. process_weights_and_bias (rewriter_of [])
       \<lparr>kernel = Array2 3 4 [[1, 2, 3, 4], [5, 6, 7, 8], [9, 10, 11, 12::int]],
        bias = [10, 20, 30, 40], forget_bias = [100]\<rparr> (props_of Map.empty) = (Inr r, st') \<and>
      snd (snd r) = 1 \<and> hidden_size (fst r) = 1)"
proof -
  let ?bad = "\<lparr>kernel = Array2 1 4 [[1, 2, 3, 4::int]], bias = [1, 2, 3, 4, 5],
                forget_bias = [1]\<rparr>"
  let ?good = "\<lparr>kernel = Array2 3 4 [[1, 2, 3, 4], [5, 6, 7, 8], [9, 10, 11, 12::int]],
                 bias = [10, 20, 30, 40], forget_bias = [100]\<rparr>"
  have ok: "process_weights_and_bias_arrays (kernel ?good) (bias ?good) (forget_bias ?good) =
     Inr \<lparr>W_iofc = Array2 4 2 [[1, 5], [4, 8], [3, 7], [2, 6]],
          R_iofc = Array2 4 1 [[9], [12], [11], [10]],
          B_arr = Array2 1 8 [[10, 40, 130, 20, 0, 0, 0, 0]],
          arr_input_size = 2, arr_hidden_size = 1\<rparr>"
    by (simp add: process_weights_and_bias_arrays_def np_reshape_row_def np_split_axis1_def
        upt_4 np_concatenate_axis1_def np_add_scalar_def np_zeros_def np_split_rows_neg_def
        np_transpose_def Let_def upt_rec)
  have ex: "\<exists>r st'. process_weights_and_bias (rewriter_of []) ?good (props_of Map.empty) = (Inr r, st')"
    unfolding process_weights_and_bias_def ok by (simp add: Let_def split_def)
  then obtain r st' where
    r: "process_weights_and_bias (rewriter_of []) ?good (props_of Map.empty) = (Inr r, st')"
    by blast
  have bad: "length (bias ?bad) mod 4 \<noteq> 0"
    by simp
  show ?thesis
    using bad hidden_size_exact [of ?bad "rewriter_of []" "props_of Map.empty"]
      hidden_size_exact [of ?good "rewriter_of []" "props_of Map.empty"] r
    by auto
qed

text \<open>
  Claim C7, as amended. With the role \<open>xh\<close> bound, the hidden-state check returns the entry
  tensor id exactly when one and only one of the identity's consumers is the \<open>xh\<close> node, and
  no result otherwise; consumers other than that node are not counted.
\<close>

theorem ht_switch_check_counts_xh:
  assumes "m ''xh'' = Some xh"
  shows "ht_switch_check enter_id identity_consumers m =
         (if length (filter (\<lambda>c. c = xh) identity_consumers) = 1
          then Inr (Some enter_id) else Inr None)"
  using assms by (cases identity_consumers) (simp_all add: ht_switch_check_def get_op_def)

theorem ht_switch_check_counts_xh_witness:
  "[''xh'' \<mapsto> (5::nat)] ''xh'' = Some 5 \<and>
   ht_switch_check ''enter:0'' [5] [''xh'' \<mapsto> 5] = Inr (Some ''enter:0'') \<and>
   ht_switch_check ''enter:0'' [5, 5] [''xh'' \<mapsto> 5] = Inr None"
  using ht_switch_check_counts_xh [of "[''xh'' \<mapsto> 5]" 5 "''enter:0''" "[5]"]
    ht_switch_check_counts_xh [of "[''xh'' \<mapsto> 5]" 5 "''enter:0''" "[5, 5]"]
  by simp

theorem ht_switch_check_extra_consumer:
  "ht_switch_check ''enter:0'' [5, 7] [''xh'' \<mapsto> 5] = Inr (Some ''enter:0'') \<and>
   length [5, 7 :: nat] \<noteq> 1"
  by (simp add: ht_switch_check_def get_op_def)

lemma make_onnx_node_eq:
  "make_onnx_node st op ins at k =
     (next_ref st,
      st\<lparr>heap := (heap st)(next_ref st :=
             \<lparr>name = op @ ''__'' @ string_of_nat (Suc (internal_name st)), type = op, input = ins,
              outputs = map (\<lambda>i. op @ ''__'' @ string_of_nat (Suc (internal_name st)) @ '':'' @
                                  string_of_nat i) [0..<k],
              attr = at, tensor_value = None\<rparr>),
          next_ref := Suc (next_ref st),
          internal_name := Suc (internal_name st)\<rparr>)"
  by (simp add: make_onnx_node_def make_name_def new_node_def)

lemma get_node_by_name_cong:
  assumes "g_nodes st' = g_nodes st" "\<And>r. r \<in> set (g_nodes st) \<Longrightarrow> heap st' r = heap st r"
  shows "get_node_by_name st' i = get_node_by_name st i"
  unfolding get_node_by_name_def assms(1)
  by (rule find_cong) (simp_all add: assms(2))

lemma get_node_by_name_in:
  "get_node_by_name st i = Some n \<Longrightarrow> n \<in> set (g_nodes st)"
  by (auto simp: get_node_by_name_def find_Some_iff)

lemma workaround_not_no_init:
  "fst (workaround_fill_ch_init_node st i p) \<noteq> Inl (ValueError No_Initializers)"
  by (auto simp: workaround_fill_ch_init_node_def node_inputs_nth_def get_tensor_value_def
      output0_def Let_def split_def split: option.splits sum.splits list.splits if_splits)

lemma non_tuple_not_no_init:
  "fst (process_non_tuple_ch_init_nodes st p) \<noteq> Inl (ValueError No_Initializers)"
  using workaround_not_no_init [of st _ p]
  by (auto simp: process_non_tuple_ch_init_nodes_def Let_def split_def
      split: option.splits sum.splits prod.splits)

lemma c_or_h_not_no_init:
  "fst (process_c_or_h_init_nodes st i p) \<noteq> Inl (ValueError No_Initializers)"
  using workaround_not_no_init [of st i p]
  by (auto simp: process_c_or_h_init_nodes_def get_tensor_value_def Let_def split_def
      split: option.splits sum.splits prod.splits)

lemma tuple_not_no_init:
  "fst (process_tuple_ch_init_nodes st p) \<noteq> Inl (ValueError No_Initializers)"
  using c_or_h_not_no_init [of st _ p] c_or_h_not_no_init [of _ _ p]
  by (auto simp: process_tuple_ch_init_nodes_def Let_def split_def
      split: option.splits sum.splits prod.splits)


text \<open>
  Claim C4, as amended. \<open>process_var_init_nodes\<close> raises its fatal construction error
  exactly when the shared cell+hidden slot is absent and the cell slot or the hidden slot is
  absent. When the shared slot is present the shared path runs, whether or not the cell and
  hidden slots are present as well; when it is absent and both others are present, the
  tuple path runs.
\<close>

theorem init_dispatch:
  "(fst (process_var_init_nodes st p) = Inl (ValueError No_Initializers) \<longleftrightarrow>
      var_initializers p ''ct_ht'' = None \<and>
      (var_initializers p ''ct'' = None \<or> var_initializers p ''ht'' = None)) \<and>
   (var_initializers p ''ct_ht'' \<noteq> None \<longrightarrow>
      snd (process_var_init_nodes st p) = snd (process_non_tuple_ch_init_nodes st p)) \<and>
   (var_initializers p ''ct_ht'' = None \<and> var_initializers p ''ct'' \<noteq> None \<and>
    var_initializers p ''ht'' \<noteq> None \<longrightarrow>
      snd (process_var_init_nodes st p) = snd (process_tuple_ch_init_nodes st p))"
proof (intro conjI impI)
  show "fst (process_var_init_nodes st p) = Inl (ValueError No_Initializers) \<longleftrightarrow>
      var_initializers p ''ct_ht'' = None \<and>
      (var_initializers p ''ct'' = None \<or> var_initializers p ''ht'' = None)"
    using non_tuple_not_no_init [of st p] tuple_not_no_init [of st p]
    by (auto simp: process_var_init_nodes_def split: prod.splits sum.splits if_splits)
next
  assume "var_initializers p ''ct_ht'' \<noteq> None"
  then show "snd (process_var_init_nodes st p) = snd (process_non_tuple_ch_init_nodes st p)"
    by (auto simp: process_var_init_nodes_def split: prod.splits sum.splits)
next
  assume "var_initializers p ''ct_ht'' = None \<and> var_initializers p ''ct'' \<noteq> None \<and>
    var_initializers p ''ht'' \<noteq> None"
  then show "snd (process_var_init_nodes st p) = snd (process_tuple_ch_init_nodes st p)"
    by (auto simp: process_var_init_nodes_def split: prod.splits sum.splits)
qed


lemma string_of_nat_0: "string_of_nat 0 = ''0''"
  by (simp add: string_of_nat.simps)

lemma make_onnx_node_fields:
  "fst (make_onnx_node st op ins at k) = next_ref st"
  "g_nodes (snd (make_onnx_node st op ins at k)) = g_nodes st"
  "all_nodes (snd (make_onnx_node st op ins at k)) = all_nodes st"
  "must_keep_nodes (snd (make_onnx_node st op ins at k)) = must_keep_nodes st"
  "g_shapes (snd (make_onnx_node st op ins at k)) = g_shapes st"
  "next_ref (snd (make_onnx_node st op ins at k)) = Suc (next_ref st)"
  "internal_name (snd (make_onnx_node st op ins at k)) = Suc (internal_name st)"
  by (simp_all add: make_onnx_node_eq)

lemma make_onnx_node_heap:
  "heap (snd (make_onnx_node st op ins at k)) r =
     (if r = next_ref st
      then \<lparr>name = op @ ''__'' @ string_of_nat (Suc (internal_name st)), type = op, input = ins,
            outputs = map (\<lambda>i. op @ ''__'' @ string_of_nat (Suc (internal_name st)) @ '':'' @
                                string_of_nat i) [0..<k],
            attr = at, tensor_value = None\<rparr>
      else heap st r)"
  by (simp add: make_onnx_node_eq)

lemma make_onnx_node_output1:
  "hd (outputs (heap (snd (make_onnx_node st op ins at 1)) (next_ref st))) =
     op @ ''__'' @ string_of_nat (Suc (internal_name st)) @ '':0''"
  by (simp add: make_onnx_node_heap string_of_nat_0)

lemma make_onnx_node_heap_old:
  "r < next_ref st \<Longrightarrow> heap (snd (make_onnx_node st op ins at k)) r = heap st r"
  by (simp add: make_onnx_node_heap)

lemma refs_allocated_make_onnx_node:
  "refs_allocated st \<Longrightarrow> refs_allocated (snd (make_onnx_node st op ins at k))"
  by (auto simp: refs_allocated_def make_onnx_node_fields list_all_iff less_Suc_eq)

lemma get_node_by_name_make_onnx_node:
  assumes "refs_allocated st"
  shows "get_node_by_name (snd (make_onnx_node st op ins at k)) i = get_node_by_name st i"
proof (rule get_node_by_name_cong)
  show "g_nodes (snd (make_onnx_node st op ins at k)) = g_nodes st"
    by (simp add: make_onnx_node_fields)
  fix r assume "r \<in> set (g_nodes st)"
  then have "r < next_ref st"
    using assms by (simp add: refs_allocated_def list_all_iff)
  then show "heap (snd (make_onnx_node st op ins at k)) r = heap st r"
    by (rule make_onnx_node_heap_old)
qed

lemma get_node_by_name_all_nodes_update:
  "get_node_by_name (st\<lparr>all_nodes := xs\<rparr>) i = get_node_by_name st i"
  by (simp add: get_node_by_name_def)

lemma workaround_not_fill:
  "get_node_by_name st i = Some n \<Longrightarrow> type (heap st n) \<noteq> ''Fill'' \<Longrightarrow>
   workaround_fill_ch_init_node st i p = (Inr None, st)"
  by (simp add: workaround_fill_ch_init_node_def)

lemma non_tuple_non_fill:
  assumes vi: "var_initializers p ''ct_ht'' = Some i"
    and n: "get_node_by_name st i = Some n"
    and ty: "type (heap st n) \<noteq> ''Fill''"
    and wf: "refs_allocated st"
  shows "\<exists>st'. process_non_tuple_ch_init_nodes st p =
           (Inr (''Unsqueeze__'' @ string_of_nat (internal_name st + 2) @ '':0'',
                 ''Unsqueeze__'' @ string_of_nat (internal_name st + 4) @ '':0''), st') \<and>
         all_nodes st' = all_nodes st @
           [next_ref st, next_ref st + 2, next_ref st + 1, next_ref st + 3] \<and>
         must_keep_nodes st' = must_keep_nodes st @ [Some n] \<and>
         g_nodes st' = g_nodes st \<and>
         next_ref st' = next_ref st + 4 \<and>
         internal_name st' = internal_name st + 4 \<and>
         (\<forall>r < next_ref st. heap st' r = heap st r)"
  using vi workaround_not_fill [OF n ty, of p] n wf
  by (simp add: process_non_tuple_ch_init_nodes_def Let_def split_def
      make_onnx_node_fields make_onnx_node_heap string_of_nat_0 eval_nat_numeral
      get_node_by_name_all_nodes_update get_node_by_name_make_onnx_node
      refs_allocated_make_onnx_node)


lemma string_of_nat_nonempty: "string_of_nat n \<noteq> []"
  by (subst string_of_nat.simps) simp

lemma digit_inj:
  assumes "n < 10" "m < 10" "''0123456789'' ! n = ''0123456789'' ! m"
  shows "n = m"
proof -
  have "distinct ''0123456789''" by simp
  moreover have "n < length ''0123456789''" "m < length ''0123456789''"
    using assms by simp_all
  ultimately show ?thesis
    using assms(3) nth_eq_iff_index_eq by blast
qed

lemma string_of_nat_inj: "string_of_nat n = string_of_nat m \<Longrightarrow> n = m"
proof (induction n arbitrary: m rule: string_of_nat.induct)
  case (1 n)
  show ?case
  proof (cases "n < 10")
    case True
    then have n: "string_of_nat n = [''0123456789'' ! n]"
      by (subst string_of_nat.simps) simp
    show ?thesis
    proof (cases "m < 10")
      case mt: True
      then have "string_of_nat m = [''0123456789'' ! m]"
        by (subst string_of_nat.simps) simp
      with n "1.prems" True mt show ?thesis
        by (auto intro: digit_inj)
    next
      case False
      then have "string_of_nat m = string_of_nat (m div 10) @ [''0123456789'' ! (m mod 10)]"
        by (subst string_of_nat.simps) simp
      with n "1.prems" string_of_nat_nonempty [of "m div 10"] show ?thesis
        by (cases "string_of_nat (m div 10)") auto
    qed
  next
    case False
    then have n: "string_of_nat n = string_of_nat (n div 10) @ [''0123456789'' ! (n mod 10)]"
      by (subst string_of_nat.simps) simp
    show ?thesis
    proof (cases "m < 10")
      case True
      then have "string_of_nat m = [''0123456789'' ! m]"
        by (subst string_of_nat.simps) simp
      with n "1.prems" string_of_nat_nonempty [of "n div 10"] show ?thesis
        by (cases "string_of_nat (n div 10)") auto
    next
      case mf: False
      then have "string_of_nat m = string_of_nat (m div 10) @ [''0123456789'' ! (m mod 10)]"
        by (subst string_of_nat.simps) simp
      with n "1.prems" have eq: "string_of_nat (n div 10) = string_of_nat (m div 10)"
        and d: "''0123456789'' ! (n mod 10) = ''0123456789'' ! (m mod 10)"
        by simp_all
      have "n div 10 = m div 10"
        using "1.IH" [OF False eq] .
      moreover have "n mod 10 = m mod 10"
        using d by (intro digit_inj) simp_all
      ultimately show ?thesis
        by (metis div_mult_mod_eq)
    qed
  qed
qed

lemma var_init_shared_non_fill:
  assumes vi: "var_initializers p ''ct_ht'' = Some i"
    and n: "get_node_by_name st i = Some n"
    and ty: "type (heap st n) \<noteq> ''Fill''"
    and wf: "refs_allocated st"
  shows "\<exists>st'. process_var_init_nodes st p =
           (Inr (p\<lparr>onnx_input_ids := (onnx_input_ids p)
                  (''initial_h'' \<mapsto> ''Unsqueeze__'' @ string_of_nat (internal_name st + 2) @ '':0'',
                   ''initial_c'' \<mapsto> ''Unsqueeze__'' @ string_of_nat (internal_name st + 4) @ '':0'')\<rparr>),
            st') \<and>
         all_nodes st' = all_nodes st @
           [next_ref st, next_ref st + 2, next_ref st + 1, next_ref st + 3] \<and>
         must_keep_nodes st' = must_keep_nodes st @ [Some n] \<and>
         internal_name st' = internal_name st + 4 \<and>
         get_node_by_name st' i = Some n \<and> type (heap st' n) \<noteq> ''Fill'' \<and>
         refs_allocated st'"
proof -
  obtain st' where r: "process_non_tuple_ch_init_nodes st p =
           (Inr (''Unsqueeze__'' @ string_of_nat (internal_name st + 2) @ '':0'',
                 ''Unsqueeze__'' @ string_of_nat (internal_name st + 4) @ '':0''), st')"
    and a: "all_nodes st' = all_nodes st @
           [next_ref st, next_ref st + 2, next_ref st + 1, next_ref st + 3]"
    and m: "must_keep_nodes st' = must_keep_nodes st @ [Some n]"
    and g: "g_nodes st' = g_nodes st"
    and nr: "next_ref st' = next_ref st + 4"
    and k: "internal_name st' = internal_name st + 4"
    and h: "\<forall>r < next_ref st. heap st' r = heap st r"
    using non_tuple_non_fill [OF vi n ty wf] by blast
  have old: "heap st' r = heap st r" if "r \<in> set (g_nodes st)" for r
    using that wf h by (simp add: refs_allocated_def list_all_iff)
  have n': "get_node_by_name st' i = Some n"
    using get_node_by_name_cong [OF g old] n by simp
  have ty': "type (heap st' n) \<noteq> ''Fill''"
    using old [OF get_node_by_name_in [OF n]] ty by simp
  have wf': "refs_allocated st'"
    using wf by (auto simp: refs_allocated_def g nr list_all_iff)
  have "process_var_init_nodes st p =
           (Inr (p\<lparr>onnx_input_ids := (onnx_input_ids p)
                  (''initial_h'' \<mapsto> ''Unsqueeze__'' @ string_of_nat (internal_name st + 2) @ '':0'',
                   ''initial_c'' \<mapsto> ''Unsqueeze__'' @ string_of_nat (internal_name st + 4) @ '':0'')\<rparr>),
            st')"
    using vi by (simp add: process_var_init_nodes_def r)
  then show ?thesis
    using a m k n' ty' wf' by blast
qed


lemma ex_init_graph_facts:
  "get_node_by_name ex_init_graph ''init:0'' = Some 0"
  "type (heap ex_init_graph 0) \<noteq> ''Fill''"
  "refs_allocated ex_init_graph"
  "all_nodes ex_init_graph = [0, 1, 2]"
  "must_keep_nodes ex_init_graph = []"
  "internal_name ex_init_graph = 0"
  "next_ref ex_init_graph = 3"
  by (simp_all add: ex_init_graph_def rewriter_of_def mk_node_def get_node_by_name_def
      refs_allocated_def upt_rec)

lemma ex_all_three_props_facts:
  "var_initializers ex_all_three_props ''ct_ht'' = Some ''init:0''"
  "var_initializers ex_all_three_props ''ct'' = Some ''c:0''"
  "var_initializers ex_all_three_props ''ht'' = Some ''h:0''"
  by (simp_all add: ex_all_three_props_def props_of_def)

theorem init_dispatch_witness:
  "fst (process_var_init_nodes ex_init_graph (props_of [''ct'' \<mapsto> ''c:0''])) =
     Inl (ValueError No_Initializers) \<and>
   var_initializers ex_all_three_props ''ct_ht'' \<noteq> None \<and>
   snd (process_var_init_nodes ex_init_graph ex_all_three_props) =
     snd (process_non_tuple_ch_init_nodes ex_init_graph ex_all_three_props) \<and>
   var_initializers (props_of [''ct'' \<mapsto> ''c:0'', ''ht'' \<mapsto> ''h:0'']) ''ct_ht'' = None \<and>
   snd (process_var_init_nodes ex_init_graph (props_of [''ct'' \<mapsto> ''c:0'', ''ht'' \<mapsto> ''h:0''])) =
     snd (process_tuple_ch_init_nodes ex_init_graph
            (props_of [''ct'' \<mapsto> ''c:0'', ''ht'' \<mapsto> ''h:0'']))"
  using init_dispatch [of ex_init_graph "props_of [''ct'' \<mapsto> ''c:0'']"]
    init_dispatch [of ex_init_graph ex_all_three_props]
    init_dispatch [of ex_init_graph "props_of [''ct'' \<mapsto> ''c:0'', ''ht'' \<mapsto> ''h:0'']"]
  by (simp add: ex_all_three_props_facts) (simp add: props_of_def)

theorem init_dispatch_shared_wins:
  "var_initializers ex_all_three_props ''ct_ht'' \<noteq> None \<and>
   var_initializers ex_all_three_props ''ct'' \<noteq> None \<and>
   var_initializers ex_all_three_props ''ht'' \<noteq> None \<and>
   \<not> isl (fst (process_var_init_nodes ex_init_graph ex_all_three_props))"
  using var_init_shared_non_fill [OF ex_all_three_props_facts(1) ex_init_graph_facts(1,2,3)]
  by (auto simp: ex_all_three_props_facts)

text \<open>
  Claim C9, as amended. Initial-state synthesis is not idempotent. On a shared initializer
  that is not a Fill, \<open>process_var_init_nodes\<close> succeeds, and invoking it again on the state
  and the properties it left succeeds again, with other result tensor ids: each invocation
  makes four new nodes and appends them to \<open>all_nodes\<close>, and appends the initializer's node
  to the must-keep list once more.
\<close>

theorem init_state_builder_not_idempotent:
  assumes "var_initializers p ''ct_ht'' = Some i"
    and "get_node_by_name st i = Some n"
    and "type (heap st n) \<noteq> ''Fill''"
    and "refs_allocated st"
  shows "\<exists>p1 st1 p2 st2.
     process_var_init_nodes st p = (Inr p1, st1) \<and>
     process_var_init_nodes st1 p1 = (Inr p2, st2) \<and>
     onnx_input_ids p1 ''initial_h'' \<noteq> onnx_input_ids p2 ''initial_h'' \<and>
     onnx_input_ids p1 ''initial_c'' \<noteq> onnx_input_ids p2 ''initial_c'' \<and>
     length (all_nodes st1) = length (all_nodes st) + 4 \<and>
     length (all_nodes st2) = length (all_nodes st) + 8 \<and>
     must_keep_nodes st2 = must_keep_nodes st @ [Some n, Some n]"
proof -
  let ?H = "\<lambda>k. ''Unsqueeze__'' @ string_of_nat k @ '':0''"
  let ?p1 = "p\<lparr>onnx_input_ids := (onnx_input_ids p)
               (''initial_h'' \<mapsto> ?H (internal_name st + 2),
                ''initial_c'' \<mapsto> ?H (internal_name st + 4))\<rparr>"
  obtain st1 where r1: "process_var_init_nodes st p = (Inr ?p1, st1)"
    and a1: "all_nodes st1 = all_nodes st @
           [next_ref st, next_ref st + 2, next_ref st + 1, next_ref st + 3]"
    and m1: "must_keep_nodes st1 = must_keep_nodes st @ [Some n]"
    and k1: "internal_name st1 = internal_name st + 4"
    and n1: "get_node_by_name st1 i = Some n"
    and t1: "type (heap st1 n) \<noteq> ''Fill''"
    and w1: "refs_allocated st1"
    using var_init_shared_non_fill [OF assms] by blast
  have vi1: "var_initializers ?p1 ''ct_ht'' = Some i"
    using assms(1) by simp
  let ?p2 = "?p1\<lparr>onnx_input_ids := (onnx_input_ids ?p1)
               (''initial_h'' \<mapsto> ?H (internal_name st1 + 2),
                ''initial_c'' \<mapsto> ?H (internal_name st1 + 4))\<rparr>"
  obtain st2 where r2: "process_var_init_nodes st1 ?p1 = (Inr ?p2, st2)"
    and a2: "all_nodes st2 = all_nodes st1 @
           [next_ref st1, next_ref st1 + 2, next_ref st1 + 1, next_ref st1 + 3]"
    and m2: "must_keep_nodes st2 = must_keep_nodes st1 @ [Some n]"
    using var_init_shared_non_fill [OF vi1 n1 t1 w1] by blast
  have ne: "string_of_nat a \<noteq> string_of_nat b" if "a \<noteq> b" for a b
    using that string_of_nat_inj by blast
  have dh: "onnx_input_ids ?p1 ''initial_h'' \<noteq> onnx_input_ids ?p2 ''initial_h''"
    by (simp add: k1 ne)
  have dc: "onnx_input_ids ?p1 ''initial_c'' \<noteq> onnx_input_ids ?p2 ''initial_c''"
    by (simp add: k1 ne)
  have "length (all_nodes st1) = length (all_nodes st) + 4"
    by (simp add: a1)
  moreover have "length (all_nodes st2) = length (all_nodes st) + 8"
    by (simp add: a1 a2)
  moreover have "must_keep_nodes st2 = must_keep_nodes st @ [Some n, Some n]"
    by (simp add: m1 m2)
  ultimately show ?thesis
    using r1 r2 dh dc by blast
qed

theorem init_state_builder_not_idempotent_witness:
  "var_initializers ex_all_three_props ''ct_ht'' = Some ''init:0'' \<and>
   get_node_by_name ex_init_graph ''init:0'' = Some 0 \<and>
   type (heap ex_init_graph 0) \<noteq> ''Fill'' \<and>
   refs_allocated ex_init_graph \<and>
   (\<exists>p1 st1 p2 st2.
     process_var_init_nodes ex_init_graph ex_all_three_props = (Inr p1, st1) \<and>
     process_var_init_nodes st1 p1 = (Inr p2, st2) \<and>
     onnx_input_ids p1 ''initial_h'' \<noteq> onnx_input_ids p2 ''initial_h'' \<and>
     onnx_input_ids p1 ''initial_c'' \<noteq> onnx_input_ids p2 ''initial_c'' \<and>
     length (all_nodes st1) = length (all_nodes ex_init_graph) + 4 \<and>
     length (all_nodes st2) = length (all_nodes ex_init_graph) + 8 \<and>
     must_keep_nodes st2 = must_keep_nodes ex_init_graph @ [Some 0, Some 0])"
  using init_state_builder_not_idempotent
    [OF ex_all_three_props_facts(1) ex_init_graph_facts(1,2,3)]
    ex_all_three_props_facts(1) ex_init_graph_facts(1,2,3)
  by blast


theorem init_state_builder_second_run_differs:
  "onnx_input_ids (projr (fst (process_var_init_nodes ex_init_graph ex_all_three_props)))
     ''initial_h'' = Some ''Unsqueeze__2:0'' \<and>
   onnx_input_ids (projr (fst (process_var_init_nodes
       (snd (process_var_init_nodes ex_init_graph ex_all_three_props))
       (projr (fst (process_var_init_nodes ex_init_graph ex_all_three_props))))))
     ''initial_h'' = Some ''Unsqueeze__6:0'' \<and>
   length (all_nodes (snd (process_var_init_nodes
       (snd (process_var_init_nodes ex_init_graph ex_all_three_props))
       (projr (fst (process_var_init_nodes ex_init_graph ex_all_three_props)))))) =
     length (all_nodes ex_init_graph) + 8"
proof -
  have ar: "(0::nat) + 2 = 2" "(0::nat) + 4 = 4" "(4::nat) + 2 = 6" "(4::nat) + 4 = 8"
    by simp_all
  have sn: "string_of_nat 2 = ''2''" "string_of_nat 4 = ''4''" "string_of_nat 6 = ''6''"
    "string_of_nat 8 = ''8''"
    by (simp_all add: string_of_nat.simps)
  let ?p1 = "ex_all_three_props\<lparr>onnx_input_ids := (onnx_input_ids ex_all_three_props)
               (''initial_h'' \<mapsto> ''Unsqueeze__'' @ ''2'' @ '':0'',
                ''initial_c'' \<mapsto> ''Unsqueeze__'' @ ''4'' @ '':0'')\<rparr>"
  note L1 = var_init_shared_non_fill [OF ex_all_three_props_facts(1) ex_init_graph_facts(1,2,3),
      unfolded ex_init_graph_facts(6) ar sn]
  obtain st1 where r1: "process_var_init_nodes ex_init_graph ex_all_three_props = (Inr ?p1, st1)"
    and a1: "length (all_nodes st1) = length (all_nodes ex_init_graph) + 4"
    and k1: "internal_name st1 = 4"
    and n1: "get_node_by_name st1 ''init:0'' = Some 0"
    and t1: "type (heap st1 0) \<noteq> ''Fill''"
    and w1: "refs_allocated st1"
    using L1 by auto
  have vi1: "var_initializers ?p1 ''ct_ht'' = Some ''init:0''"
    by (simp add: ex_all_three_props_facts)
  let ?p2 = "?p1\<lparr>onnx_input_ids := (onnx_input_ids ?p1)
               (''initial_h'' \<mapsto> ''Unsqueeze__'' @ ''6'' @ '':0'',
                ''initial_c'' \<mapsto> ''Unsqueeze__'' @ ''8'' @ '':0'')\<rparr>"
  note L2 = var_init_shared_non_fill [OF vi1 n1 t1 w1, unfolded k1 ar sn]
  obtain st2 where r2: "process_var_init_nodes st1 ?p1 = (Inr ?p2, st2)"
    and a2: "length (all_nodes st2) = length (all_nodes st1) + 4"
    using L2 by auto
  show ?thesis
    using r1 r2 a1 a2 by simp
qed

text \<open>
  Claim C10. When the initializer's node is a Fill and the must-keep list does not hold
  it, the removal in \<open>_workaround_fill_ch_init_node\<close> raises ValueError before anything is
  built, and the callers pass the exception on: the tuple path's helper, the shared path
  (which appends to the must-keep list only after the workaround has returned) and
  \<open>process_var_init_nodes\<close> all abort with the state unchanged.
\<close>

theorem fill_workaround_needs_must_keep:
  assumes "get_node_by_name st i = Some node"
    and "type (heap st node) = ''Fill''"
    and "Some node \<notin> set (must_keep_nodes st)"
  shows "workaround_fill_ch_init_node st i p = (Inl (ValueError Not_In_List), st) \<and>
         process_c_or_h_init_nodes st i p = (Inl (ValueError Not_In_List), st) \<and>
         (var_initializers p ''ct_ht'' = Some i \<longrightarrow>
            process_non_tuple_ch_init_nodes st p = (Inl (ValueError Not_In_List), st) \<and>
            process_var_init_nodes st p = (Inl (ValueError Not_In_List), st))"
proof -
  have w: "workaround_fill_ch_init_node st i p = (Inl (ValueError Not_In_List), st)"
    using assms by (simp add: workaround_fill_ch_init_node_def)
  then show ?thesis
    by (simp add: process_c_or_h_init_nodes_def process_non_tuple_ch_init_nodes_def
        process_var_init_nodes_def)
qed

theorem fill_workaround_needs_must_keep_witness:
  "get_node_by_name ex_fill_graph ''zeros:0'' = Some 0 \<and>
   type (heap ex_fill_graph 0) = ''Fill'' \<and>
   Some 0 \<notin> set (must_keep_nodes ex_fill_graph) \<and>
   var_initializers (props_of [''ct_ht'' \<mapsto> ''zeros:0'']) ''ct_ht'' = Some ''zeros:0'' \<and>
   workaround_fill_ch_init_node ex_fill_graph ''zeros:0'' (props_of [''ct_ht'' \<mapsto> ''zeros:0'']) =
     (Inl (ValueError Not_In_List), ex_fill_graph) \<and>
   process_var_init_nodes ex_fill_graph (props_of [''ct_ht'' \<mapsto> ''zeros:0'']) =
     (Inl (ValueError Not_In_List), ex_fill_graph)"
proof -
  have f: "get_node_by_name ex_fill_graph ''zeros:0'' = Some 0"
    "type (heap ex_fill_graph 0) = ''Fill''"
    "Some 0 \<notin> set (must_keep_nodes ex_fill_graph)"
    by (simp_all add: ex_fill_graph_def rewriter_of_def mk_node_def get_node_by_name_def)
  have v: "var_initializers (props_of [''ct_ht'' \<mapsto> ''zeros:0'']) ''ct_ht'' = Some ''zeros:0''"
    by (simp add: props_of_def)
  show ?thesis
    using f v fill_workaround_needs_must_keep [OF f, of "props_of [''ct_ht'' \<mapsto> ''zeros:0'']"]
    by simp
qed

lemma length_concat_rows:
  "\<forall>r \<in> set xs. length r = n \<Longrightarrow> length (concat xs) = length xs * n"
  by (induction xs) auto

lemma chunks_concat:
  "\<forall>r \<in> set xs. length r = n \<Longrightarrow>
   map (\<lambda>i. take n (drop (i * n) (concat xs))) [0..<length xs] = xs"
proof (induction xs)
  case Nil
  then show ?case by simp
next
  case (Cons x xs)
  have "[0..<length (x # xs)] = 0 # map Suc [0..<length xs]"
    by (simp add: upt_conv_Cons map_Suc_upt del: upt_Suc)
  then show ?case
    using Cons by (simp add: o_def del: upt_Suc)
qed

lemma array2_of_tensor_of_array2:
  "wf_array2 A \<Longrightarrow> array2_of_tensor (tensor_of_array2 A) = Some A"
  using chunks_concat [of "rows A" "shape1 A"]
  by (cases A) (auto simp: array2_of_tensor_def tensor_of_array2_def wf_array2_def list_all_iff)

lemma tensor_index0_expand:
  "wf_array2 A \<Longrightarrow> tensor_index0 (np_expand_dims0 (tensor_of_array2 A)) = tensor_of_array2 A"
  using length_concat_rows [of "rows A" "shape1 A"]
  by (simp add: tensor_index0_def np_expand_dims0_def tensor_of_array2_def wf_array2_def
      list_all_iff)

lemma wf_np_transpose:
  "length (rows A) = shape0 A \<Longrightarrow> wf_array2 (np_transpose A)"
  by (simp add: wf_array2_def np_transpose_def list_all_iff)

lemma pwb_emits:
  assumes "process_weights_and_bias_arrays (kernel w) (bias w) (forget_bias w) = Inr a"
  shows "\<exists>props' st'.
     process_weights_and_bias st w props =
       (Inr (props', arr_input_size a, arr_hidden_size a), st') \<and>
     g_nodes st' = g_nodes st @ [next_ref st, next_ref st + 1, next_ref st + 2] \<and>
     all_nodes st' = all_nodes st \<and>
     tensor_value (heap st' (next_ref st)) =
       Some (np_expand_dims0 (tensor_of_array2 (W_iofc a))) \<and>
     tensor_value (heap st' (next_ref st + 1)) =
       Some (np_expand_dims0 (tensor_of_array2 (R_iofc a))) \<and>
     tensor_value (heap st' (next_ref st + 2)) = Some (tensor_of_array2 (B_arr a)) \<and>
     type (heap st' (next_ref st)) = ''Const'' \<and>
     type (heap st' (next_ref st + 1)) = ''Const'' \<and>
     type (heap st' (next_ref st + 2)) = ''Const'' \<and>
     onnx_input_ids props' ''W'' = Some (hd (outputs (heap st' (next_ref st)))) \<and>
     onnx_input_ids props' ''R'' = Some (hd (outputs (heap st' (next_ref st + 1)))) \<and>
     onnx_input_ids props' ''B'' = Some (hd (outputs (heap st' (next_ref st + 2)))) \<and>
     outputs (heap st' (next_ref st)) \<noteq> [] \<and>
     outputs (heap st' (next_ref st + 1)) \<noteq> [] \<and>
     outputs (heap st' (next_ref st + 2)) \<noteq> []"
  by (simp add: process_weights_and_bias_def assms make_const_def make_name_def new_node_def
      Let_def)


lemma pwb_arrays_wf:
  fixes w_r_icfo :: "('a::{plus,zero}) array2"
  assumes "wf_array2 w_r_icfo" "shape1 w_r_icfo = 4 * h" "length b_r_icfo = 4 * h"
    and "process_weights_and_bias_arrays w_r_icfo b_r_icfo (f # fs) = Inr out"
  shows "wf_array2 (W_iofc out) \<and> wf_array2 (R_iofc out) \<and> wf_array2 (B_arr out)"
proof -
  have len: "length (rows w_r_icfo) = shape0 w_r_icfo"
    using assms(1) by (simp add: wf_array2_def)
  define p where "p = (if h = 0 then 0 else shape0 w_r_icfo - h)"
  have lt: "length (take p (rows w_r_icfo)) = p"
    using len by (simp add: p_def)
  note out = pwb_success [OF len assms(2,3), of f fs, folded p_def]
  have W: "wf_array2 (np_transpose (Array2 p (4 * h)
              (map (swap_gates_row h) (take p (rows w_r_icfo)))))"
    by (rule wf_np_transpose) (use lt in simp)
  have R: "wf_array2 (np_transpose (Array2 (shape0 w_r_icfo - p) (4 * h)
              (map (swap_gates_row h) (drop p (rows w_r_icfo)))))"
    by (rule wf_np_transpose) (simp add: len)
  have B: "wf_array2 (Array2 1 (8 * h) [fused_bias_row h f b_r_icfo @ replicate (4 * h) 0])"
    using assms(3) by (simp add: wf_array2_def fused_bias_row_def)
  show ?thesis
    using assms(4) W R B unfolding out by auto
qed

text \<open>
  Claim C1. For a kernel of shape \<open>(rows, 4 * h)\<close> and a bias of length \<open>4 * h\<close>,
  \<open>process_weights_and_bias\<close> returns and adds three constant nodes to the graph, whose
  outputs it records as the inputs \<open>W\<close>, \<open>R\<close> and \<open>B\<close> of the fused operator. The tensors
  these nodes hold are a pure permutation of gate blocks: \<open>W[0]\<close> and \<open>R[0]\<close>, transposed
  back, with their four blocks put in native order and stacked, are the kernel again; the
  first half of \<open>B\<close>, put in native order, is the bias with the forget-bias scalar added to
  its forget block.
\<close>

theorem emitted_weights_are_permuted_kernel:
  fixes w :: "('a::{plus,zero}) rnn_weights"
  assumes "wf_array2 (kernel w)"
    and "shape1 (kernel w) = 4 * h"
    and "length (bias w) = 4 * h"
    and "forget_bias w \<noteq> []"
  shows "\<exists>props' isz hs st' wn rn bn Wt Rt Bt Wa Ra Ba W' R' halves B'.
     process_weights_and_bias st w props = (Inr (props', isz, hs), st') \<and>
     g_nodes st' = g_nodes st @ [wn, rn, bn] \<and>
     outputs (heap st' wn) \<noteq> [] \<and> outputs (heap st' rn) \<noteq> [] \<and> outputs (heap st' bn) \<noteq> [] \<and>
     onnx_input_ids props' ''W'' = Some (hd (outputs (heap st' wn))) \<and>
     onnx_input_ids props' ''R'' = Some (hd (outputs (heap st' rn))) \<and>
     onnx_input_ids props' ''B'' = Some (hd (outputs (heap st' bn))) \<and>
     tensor_value (heap st' wn) = Some Wt \<and>
     tensor_value (heap st' rn) = Some Rt \<and>
     tensor_value (heap st' bn) = Some Bt \<and>
     array2_of_tensor (tensor_index0 Wt) = Some Wa \<and>
     array2_of_tensor (tensor_index0 Rt) = Some Ra \<and>
     array2_of_tensor Bt = Some Ba \<and>
     to_native_order (np_transpose Wa) = Inr W' \<and>
     to_native_order (np_transpose Ra) = Inr R' \<and>
     np_concatenate_axis0 [W', R'] = Inr (kernel w) \<and>
     np_split_axis1 Ba 2 = Inr halves \<and>
     to_native_order (halves ! 0) = Inr B' \<and>
     B' = np_reshape_row (add_forget_bias h (hd (forget_bias w)) (bias w))"
proof -
  obtain f fs where ft: "forget_bias w = f # fs"
    using assms(4) by (cases "forget_bias w") auto
  obtain out W' R' halves B' where
    out: "process_weights_and_bias_arrays (kernel w) (bias w) (forget_bias w) = Inr out"
    and W: "to_native_order (np_transpose (W_iofc out)) = Inr W'"
    and R: "to_native_order (np_transpose (R_iofc out)) = Inr R'"
    and K: "np_concatenate_axis0 [W', R'] = Inr (kernel w)"
    and H: "np_split_axis1 (B_arr out) 2 = Inr halves"
    and B: "to_native_order (halves ! 0) = Inr B'"
    and B': "B' = np_reshape_row (add_forget_bias h (hd (forget_bias w)) (bias w))"
    using arrays_gate_reordering [OF assms] by blast
  have wf: "wf_array2 (W_iofc out)" "wf_array2 (R_iofc out)" "wf_array2 (B_arr out)"
    using pwb_arrays_wf [OF assms(1,2,3) out [unfolded ft]] by simp_all
  have Wa: "array2_of_tensor (tensor_index0 (np_expand_dims0 (tensor_of_array2 (W_iofc out)))) =
              Some (W_iofc out)"
    and Ra: "array2_of_tensor (tensor_index0 (np_expand_dims0 (tensor_of_array2 (R_iofc out)))) =
              Some (R_iofc out)"
    and Ba: "array2_of_tensor (tensor_of_array2 (B_arr out)) = Some (B_arr out)"
    using wf by (simp_all add: tensor_index0_expand array2_of_tensor_of_array2)
  from pwb_emits [OF out, of st props] obtain props' st' where
    "process_weights_and_bias st w props =
       (Inr (props', arr_input_size out, arr_hidden_size out), st')"
    "g_nodes st' = g_nodes st @ [next_ref st, next_ref st + 1, next_ref st + 2]"
    "tensor_value (heap st' (next_ref st)) =
       Some (np_expand_dims0 (tensor_of_array2 (W_iofc out)))"
    "tensor_value (heap st' (next_ref st + 1)) =
       Some (np_expand_dims0 (tensor_of_array2 (R_iofc out)))"
    "tensor_value (heap st' (next_ref st + 2)) = Some (tensor_of_array2 (B_arr out))"
    "onnx_input_ids props' ''W'' = Some (hd (outputs (heap st' (next_ref st))))"
    "onnx_input_ids props' ''R'' = Some (hd (outputs (heap st' (next_ref st + 1))))"
    "onnx_input_ids props' ''B'' = Some (hd (outputs (heap st' (next_ref st + 2))))"
    "outputs (heap st' (next_ref st)) \<noteq> []"
    "outputs (heap st' (next_ref st + 1)) \<noteq> []"
    "outputs (heap st' (next_ref st + 2)) \<noteq> []"
    by blast
  with Wa Ra Ba W R K H B B' show ?thesis
    by blast
qed



lemma ex_weights_facts:
  "wf_array2 (kernel ex_weights)"
  "shape1 (kernel ex_weights) = 4 * 1"
  "length (bias ex_weights) = 4 * 1"
  "forget_bias ex_weights \<noteq> []"
  "forget_bias ex_weights = 100 # []"
  by (simp_all add: ex_weights_def wf_array2_def)

theorem emitted_weights_are_permuted_kernel_witness:
  "wf_array2 (kernel ex_weights) \<and> shape1 (kernel ex_weights) = 4 * 1 \<and>
   length (bias ex_weights) = 4 * 1 \<and> forget_bias ex_weights \<noteq> [] \<and>
   (\<exists>props' isz hs st' wn rn bn Wt Rt Bt Wa Ra Ba W' R' halves B'.
     process_weights_and_bias (rewriter_of []) ex_weights (props_of Map.empty) =
       (Inr (props', isz, hs), st') \<and>
     g_nodes st' = g_nodes (rewriter_of [] :: int rewriter) @ [wn, rn, bn] \<and>
     outputs (heap st' wn) \<noteq> [] \<and> outputs (heap st' rn) \<noteq> [] \<and> outputs (heap st' bn) \<noteq> [] \<and>
     onnx_input_ids props' ''W'' = Some (hd (outputs (heap st' wn))) \<and>
     onnx_input_ids props' ''R'' = Some (hd (outputs (heap st' rn))) \<and>
     onnx_input_ids props' ''B'' = Some (hd (outputs (heap st' bn))) \<and>
     tensor_value (heap st' wn) = Some Wt \<and>
     tensor_value (heap st' rn) = Some Rt \<and>
     tensor_value (heap st' bn) = Some Bt \<and>
     array2_of_tensor (tensor_index0 Wt) = Some Wa \<and>
     array2_of_tensor (tensor_index0 Rt) = Some Ra \<and>
     array2_of_tensor Bt = Some Ba \<and>
     to_native_order (np_transpose Wa) = Inr W' \<and>
     to_native_order (np_transpose Ra) = Inr R' \<and>
     np_concatenate_axis0 [W', R'] = Inr (kernel ex_weights) \<and>
     np_split_axis1 Ba 2 = Inr halves \<and>
     to_native_order (halves ! 0) = Inr B' \<and>
     B' = np_reshape_row (add_forget_bias 1 (hd (forget_bias ex_weights)) (bias ex_weights)))"
  using ex_weights_facts(1-4)
    emitted_weights_are_permuted_kernel [OF ex_weights_facts(1-4),
      of "rewriter_of []" "props_of Map.empty"]
  by - (intro conjI, assumption+)


lemma ex_weights_emitted_values:
  "tensor_value (heap (snd (process_weights_and_bias (rewriter_of []) ex_weights
                              (props_of Map.empty))) 0) =
     Some (Tensor [1, 4, 2] [1, 5, 4, 8, 3, 7, 2, 6]) \<and>
   tensor_value (heap (snd (process_weights_and_bias (rewriter_of []) ex_weights
                              (props_of Map.empty))) 1) =
     Some (Tensor [1, 4, 1] [9, 12, 11, 10]) \<and>
   tensor_value (heap (snd (process_weights_and_bias (rewriter_of []) ex_weights
                              (props_of Map.empty))) 2) =
     Some (Tensor [1, 8] [10, 40, 130, 20, 0, 0, 0, 0])"
proof -
  have ok: "process_weights_and_bias_arrays (kernel ex_weights) (bias ex_weights)
              (forget_bias ex_weights) =
     Inr \<lparr>W_iofc = Array2 4 2 [[1, 5], [4, 8], [3, 7], [2, 6]],
          R_iofc = Array2 4 1 [[9], [12], [11], [10]],
          B_arr = Array2 1 8 [[10, 40, 130, 20, 0, 0, 0, 0]],
          arr_input_size = 2, arr_hidden_size = 1\<rparr>"
    by (simp add: ex_weights_def process_weights_and_bias_arrays_def np_reshape_row_def
        np_split_axis1_def upt_4 np_concatenate_axis1_def np_add_scalar_def np_zeros_def
        np_split_rows_neg_def np_transpose_def Let_def upt_rec)
  show ?thesis
    using pwb_emits [OF ok, of "rewriter_of []" "props_of Map.empty"]
    by (auto simp: rewriter_of_def np_expand_dims0_def tensor_of_array2_def numeral_2_eq_2)
qed


























lemma find_output_consumers_cong:
  assumes "g_nodes st' = g_nodes st" "\<And>r. r \<in> set (g_nodes st) \<Longrightarrow> heap st' r = heap st r"
  shows "find_output_consumers st' x = find_output_consumers st x"
  unfolding find_output_consumers_def assms(1)
  by (rule filter_cong) (simp_all add: assms(2))

lemma state_after_squeeze_fields:
  "g_nodes (state_after_squeeze st lo sh) = g_nodes st"
  "all_nodes (state_after_squeeze st lo sh) = all_nodes st"
  "next_ref (state_after_squeeze st lo sh) = Suc (next_ref st)"
  "internal_name (state_after_squeeze st lo sh) = Suc (internal_name st)"
  "g_shapes (state_after_squeeze st lo sh) =
     (g_shapes st)(squeeze_output_id st \<mapsto> [sh ! 0, sh ! 2, sh ! 3])"
  "heap (state_after_squeeze st lo sh) = heap (snd (make_onnx_node st ''Squeeze'' [lo]
      [(''axes'', AInts [1])] 1))"
  by (simp_all add: state_after_squeeze_def set_shape_def make_onnx_node_fields)

lemma state_after_squeeze_heap_old:
  "r < next_ref st \<Longrightarrow> heap (state_after_squeeze st lo sh) r = heap st r"
  by (simp add: state_after_squeeze_fields make_onnx_node_heap)

















end
